theory Spec2Isabelle
  imports Complex_Main "HOL-Library.Multiset"
begin

section \<open>FBES self-assessment tool: data model\<close>

text \<open>
  The backend (\<^verbatim>\<open>backend/main.py\<close>, \<^verbatim>\<open>backend/models.py\<close>) keeps users, assessments and
  analytics events in three tables and scores an assessment against a static catalog of
  weighted categories. JSON columns hold nested values, so JSON values are a datatype of
  their own. The numbers of the catalog are JSON numbers; they are modelled as exact
  rationals, and Python's arithmetic on them as exact arithmetic.
\<close>

datatype json =
    JNull
  | JBool bool
  | JNum rat
  | JStr string
  | JArr "json list"
  | JObj "(string \<times> json) list"

text \<open>
  Failures: \<^verbatim>\<open>HTTPException(status_code, detail)\<close> raised by a handler, and the
  \<^verbatim>\<open>AttributeError\<close> Python raises when \<^verbatim>\<open>.get\<close> is called on a JSON value that is
  not an object.
\<close>

datatype error = HTTPException nat string | AttributeError

subsection \<open>The category catalog (\<^verbatim>\<open>CATEGORIES_DATA\<close>)\<close>

text \<open>
  A question's \<^verbatim>\<open>impact\<close> and \<^verbatim>\<open>guidance\<close> are optional keys (read with
  \<^verbatim>\<open>question.get\<close>). \<open>cat_id\<close> holds \<^verbatim>\<open>str(category["id"])\<close>, the key under which
  the responses of the category are stored.
\<close>

record question =
  q_id :: string
  q_text :: string
  impact :: "rat option"
  guidance :: "string option"

record category =
  cat_id :: string
  cat_name :: string
  cat_weight :: rat
  questions :: "question list"

record catalog =
  categories :: "category list"
  scoring :: json

text \<open>\<^verbatim>\<open>question.get("impact", 1.0)\<close> and \<^verbatim>\<open>question.get("guidance", "")\<close>.\<close>

definition get_impact :: "question \<Rightarrow> rat" where
  "get_impact q = (case impact q of None \<Rightarrow> 1 | Some i \<Rightarrow> i)"

definition get_guidance :: "question \<Rightarrow> string" where
  "get_guidance q = (case guidance q of None \<Rightarrow> [] | Some g \<Rightarrow> g)"

subsection \<open>Responses\<close>

text \<open>
  The responses column is a dictionary from category id to a dictionary from question id
  to a JSON value (\<^verbatim>\<open>Dict[str, Dict[str, Any]]\<close>); the leaf is meant to be an object
  with the keys \<^verbatim>\<open>answer\<close> and \<^verbatim>\<open>notes\<close>, but nothing validates it.
\<close>

type_synonym cat_responses = "string \<rightharpoonup> json"
type_synonym responses_map = "string \<rightharpoonup> cat_responses"

text \<open>\<^verbatim>\<open>responses.get(cat_id, {})\<close>\<close>

definition get_cat_responses :: "responses_map \<Rightarrow> string \<Rightarrow> cat_responses" where
  "get_cat_responses responses cid =
     (case responses cid of None \<Rightarrow> Map.empty | Some m \<Rightarrow> m)"

text \<open>
  \<^verbatim>\<open>leaf.get("answer", "no")\<close>: the value under \<^verbatim>\<open>answer\<close> of an object, \<^verbatim>\<open>"no"\<close>
  when the key is absent, and an \<^verbatim>\<open>AttributeError\<close> on every other JSON value.
\<close>

fun leaf_answer :: "json \<Rightarrow> error + json" where
  "leaf_answer (JObj kvs) =
     Inr (case map_of kvs ''answer'' of None \<Rightarrow> JStr ''no'' | Some a \<Rightarrow> a)"
| "leaf_answer _ = Inl AttributeError"

text \<open>\<^verbatim>\<open>cat_responses.get(q_id, {}).get("answer", "no")\<close>\<close>

definition get_answer :: "cat_responses \<Rightarrow> string \<Rightarrow> error + json" where
  "get_answer cr qid =
     (case cr qid of None \<Rightarrow> Inr (JStr ''no'') | Some leaf \<Rightarrow> leaf_answer leaf)"

section \<open>Scoring (\<^verbatim>\<open>complete_assessment\<close>, first loop)\<close>

text \<open>
  Python's built-in \<^verbatim>\<open>round(x, n)\<close> rounds to \<open>n\<close> decimals, a tie going to the even
  digit.
\<close>

definition round_half_even :: "rat \<Rightarrow> int" where
  "round_half_even x =
     (let f = \<lfloor>x\<rfloor>; d = x - of_int f
      in if d < 1 / 2 then f
         else if 1 / 2 < d then f + 1
         else if even f then f else f + 1)"

definition pyround :: "rat \<Rightarrow> nat \<Rightarrow> rat" where
  "pyround x n = of_int (round_half_even (x * 10 ^ n)) / 10 ^ n"

record category_score =
  cs_name :: string
  raw_score :: rat
  weighted_score :: rat
  status :: string

text \<open>
  The inner loop over the questions of one category, with the two running sums
  \<^verbatim>\<open>max_score\<close> and \<^verbatim>\<open>actual_score\<close>.
\<close>

fun score_questions ::
  "cat_responses \<Rightarrow> question list \<Rightarrow> rat \<Rightarrow> rat \<Rightarrow> error + (rat \<times> rat)" where
  "score_questions cr [] max_score actual_score = Inr (max_score, actual_score)"
| "score_questions cr (q # qs) max_score actual_score =
     (case get_answer cr (q_id q) of
        Inl e \<Rightarrow> Inl e
      | Inr answer \<Rightarrow>
          score_questions cr qs (max_score + 2 * get_impact q)
            (if answer = JStr ''yes'' then actual_score + 2 * get_impact q
             else if answer = JStr ''partial'' then actual_score + 1 * get_impact q
             else actual_score))"

text \<open>\<^verbatim>\<open>category_scores[cat_id] = entry\<close> on an insertion-ordered dictionary.\<close>

fun dict_set :: "'k \<Rightarrow> 'v \<Rightarrow> ('k \<times> 'v) list \<Rightarrow> ('k \<times> 'v) list" where
  "dict_set k v [] = [(k, v)]"
| "dict_set k v (p # ps) = (if fst p = k then (k, v) # ps else p # dict_set k v ps)"

definition raw_pct_of :: "rat \<Rightarrow> rat \<Rightarrow> rat" where
  "raw_pct_of max_score actual_score =
     (if 0 < max_score then actual_score / max_score * 100 else 0)"

definition status_of :: "rat \<Rightarrow> string" where
  "status_of raw_pct =
     (if 75 \<le> raw_pct then ''strong'' else (if 50 \<le> raw_pct then ''adequate'' else ''weak''))"

text \<open>
  The outer loop over the categories, with \<^verbatim>\<open>category_scores\<close>,
  \<^verbatim>\<open>total_weighted_score\<close> and \<^verbatim>\<open>total_weight\<close>.
\<close>

fun score_categories ::
  "responses_map \<Rightarrow> category list \<Rightarrow> (string \<times> category_score) list \<Rightarrow> rat \<Rightarrow> rat
   \<Rightarrow> error + ((string \<times> category_score) list \<times> rat \<times> rat)" where
  "score_categories responses [] category_scores total_weighted_score total_weight =
     Inr (category_scores, total_weighted_score, total_weight)"
| "score_categories responses (c # cs) category_scores total_weighted_score total_weight =
     (case score_questions (get_cat_responses responses (cat_id c)) (questions c) 0 0 of
        Inl e \<Rightarrow> Inl e
      | Inr (max_score, actual_score) \<Rightarrow>
          (let raw_pct = raw_pct_of max_score actual_score;
               weighted = raw_pct * cat_weight c
           in score_categories responses cs
                (dict_set (cat_id c)
                   \<lparr>cs_name = cat_name c, raw_score = pyround raw_pct 1,
                    weighted_score = pyround weighted 2, status = status_of raw_pct\<rparr>
                   category_scores)
                (total_weighted_score + weighted)
                (total_weight + cat_weight c)))"

definition overall_of :: "rat \<Rightarrow> rat \<Rightarrow> rat" where
  "overall_of total_weighted_score total_weight =
     (if 0 < total_weight then pyround (total_weighted_score / total_weight) 1 else 0)"

section \<open>Recommendations (\<^verbatim>\<open>complete_assessment\<close>, second loop)\<close>

record recommendation =
  rec_category :: string
  rec_question :: string
  current_answer :: json
  rec_guidance :: string
  rec_impact :: rat
  priority_score :: rat

definition make_recommendation :: "category \<Rightarrow> question \<Rightarrow> json \<Rightarrow> recommendation" where
  "make_recommendation c q answer =
     \<lparr>rec_category = cat_name c, rec_question = q_text q, current_answer = answer,
      rec_guidance = get_guidance q, rec_impact = get_impact q,
      priority_score = cat_weight c * get_impact q * (if answer = JStr ''no'' then 2 else 1)\<rparr>"

fun recommend_questions ::
  "category \<Rightarrow> cat_responses \<Rightarrow> question list \<Rightarrow> recommendation list
   \<Rightarrow> error + recommendation list" where
  "recommend_questions c cr [] recs = Inr recs"
| "recommend_questions c cr (q # qs) recs =
     (case get_answer cr (q_id q) of
        Inl e \<Rightarrow> Inl e
      | Inr answer \<Rightarrow>
          recommend_questions c cr qs
            (if answer \<in> set [JStr ''no'', JStr ''partial'']
             then recs @ [make_recommendation c q answer] else recs))"

fun recommend_categories ::
  "responses_map \<Rightarrow> category list \<Rightarrow> recommendation list \<Rightarrow> error + recommendation list" where
  "recommend_categories responses [] recs = Inr recs"
| "recommend_categories responses (c # cs) recs =
     (case recommend_questions c (get_cat_responses responses (cat_id c)) (questions c) recs of
        Inl e \<Rightarrow> Inl e
      | Inr recs' \<Rightarrow> recommend_categories responses cs recs')"

text \<open>
  \<^verbatim>\<open>recommendations.sort(key=lambda x: x["priority_score"], reverse=True)\<close>: Python's
  sort is stable, also with \<^verbatim>\<open>reverse=True\<close>, so it is the stable sort on the negated key.
\<close>

definition sort_recommendations :: "recommendation list \<Rightarrow> recommendation list" where
  "sort_recommendations recs = sort_key (\<lambda>x. - priority_score x) recs"

definition readiness_of :: "rat \<Rightarrow> string" where
  "readiness_of overall =
     (if 75 \<le> overall then ''ready''
      else (if 50 \<le> overall then ''promising'' else ''needs_work''))"

text \<open>The dictionary the handler returns.\<close>

record completion =
  res_overall_score :: rat
  res_category_scores :: "(string \<times> category_score) list"
  res_recommendations :: "recommendation list"
  res_readiness :: string

text \<open>
  The computation between reading the responses and writing the results: both loops, the
  sort and the truncation to ten.
\<close>

definition compute_completion :: "catalog \<Rightarrow> responses_map \<Rightarrow> error + completion" where
  "compute_completion cat responses =
     (case score_categories responses (categories cat) [] 0 0 of
        Inl e \<Rightarrow> Inl e
      | Inr (category_scores, total_weighted_score, total_weight) \<Rightarrow>
          (let overall = overall_of total_weighted_score total_weight in
           case recommend_categories responses (categories cat) [] of
             Inl e \<Rightarrow> Inl e
           | Inr recs \<Rightarrow>
               Inr \<lparr>res_overall_score = overall,
                    res_category_scores = category_scores,
                    res_recommendations = take 10 (sort_recommendations recs),
                    res_readiness = readiness_of overall\<rparr>))"

section \<open>Tables and handlers\<close>

text \<open>
  The three tables of \<^verbatim>\<open>models.py\<close>, each a list of rows in insertion order; a
  timestamp is a number. A nullable column is an \<open>option\<close>.
\<close>

record user =
  u_id :: int
  email :: string
  hashed_password :: string
  u_organization :: "string option"
  u_name :: "string option"
  u_created_at :: nat
  last_login :: "nat option"

record assessment =
  a_id :: int
  user_id :: int
  program_name :: string
  a_organization :: "string option"
  program_level :: string
  target_audience :: "string list"
  delivery_format :: "string list"
  program_duration :: "string option"
  assessor_role :: "string option"
  a_status :: string
  current_category :: int
  responses :: "responses_map option"
  overall_score :: "rat option"
  category_scores :: "(string \<times> category_score) list option"
  recommendations :: "recommendation list option"
  created_at :: nat
  updated_at :: nat
  completed_at :: "nat option"

record analytics_event =
  ev_id :: int
  event_type :: string
  ev_user_id :: "int option"
  ev_assessment_id :: "int option"
  event_data :: "json option"
  ev_created_at :: nat

record db =
  users :: "user list"
  assessments :: "assessment list"
  analytics_events :: "analytics_event list"

text \<open>The integer primary key of a new row: one more than the largest key in the table.\<close>

definition fresh_id :: "int list \<Rightarrow> int" where
  "fresh_id ids = fold max ids 0 + 1"

text \<open>
  \<^verbatim>\<open>db.query(Assessment).filter(Assessment.id == assessment_id,
  Assessment.user_id == user.id).first()\<close>
\<close>

definition owned_by :: "int \<Rightarrow> int \<Rightarrow> assessment \<Rightarrow> bool" where
  "owned_by assessment_id uid a \<longleftrightarrow> a_id a = assessment_id \<and> user_id a = uid"

definition query_assessment :: "db \<Rightarrow> int \<Rightarrow> int \<Rightarrow> assessment option" where
  "query_assessment d assessment_id uid = find (owned_by assessment_id uid) (assessments d)"

text \<open>Writing the mutated row object back: the row the query returned is replaced.\<close>

fun update_first :: "('a \<Rightarrow> bool) \<Rightarrow> ('a \<Rightarrow> 'a) \<Rightarrow> 'a list \<Rightarrow> 'a list" where
  "update_first P f [] = []"
| "update_first P f (x # xs) = (if P x then f x # xs else x # update_first P f xs)"

definition not_found :: error where
  "not_found = HTTPException 404 ''Assessment not found''"

text \<open>\<^verbatim>\<open>assessment.responses or {}\<close>\<close>

definition responses_or_empty :: "assessment \<Rightarrow> responses_map" where
  "responses_or_empty a = (case responses a of None \<Rightarrow> Map.empty | Some m \<Rightarrow> m)"

text \<open>
  Every handler takes the table state and the authenticated user (\<^verbatim>\<open>require_auth\<close>) and
  returns its reply or error together with the state it leaves.
\<close>

definition get_assessment :: "db \<Rightarrow> user \<Rightarrow> int \<Rightarrow> (error + assessment) \<times> db" where
  "get_assessment d usr assessment_id =
     (case query_assessment d assessment_id (u_id usr) of
        None \<Rightarrow> (Inl not_found, d)
      | Some a \<Rightarrow> (Inr a, d))"

text \<open>
  \<^verbatim>\<open>current.update(responses)\<close> is the dictionary update of Python: every key of the
  submission replaces the value stored under that key.
\<close>

definition update_responses ::
  "db \<Rightarrow> nat \<Rightarrow> user \<Rightarrow> int \<Rightarrow> responses_map \<Rightarrow> (error + string) \<times> db" where
  "update_responses d now usr assessment_id new_responses =
     (case query_assessment d assessment_id (u_id usr) of
        None \<Rightarrow> (Inl not_found, d)
      | Some a \<Rightarrow>
          (let current = responses_or_empty a ++ new_responses
           in (Inr ''Responses saved'',
               d\<lparr>assessments :=
                   update_first (owned_by assessment_id (u_id usr))
                     (\<lambda>a. a\<lparr>responses := Some current, updated_at := now\<rparr>)
                     (assessments d)\<rparr>)))"

definition complete_assessment ::
  "catalog \<Rightarrow> db \<Rightarrow> nat \<Rightarrow> user \<Rightarrow> int \<Rightarrow> (error + completion) \<times> db" where
  "complete_assessment cat d now usr assessment_id =
     (case query_assessment d assessment_id (u_id usr) of
        None \<Rightarrow> (Inl not_found, d)
      | Some a \<Rightarrow>
          (case compute_completion cat (responses_or_empty a) of
             Inl e \<Rightarrow> (Inl e, d)
           | Inr res \<Rightarrow>
               (Inr res,
                d\<lparr>assessments :=
                    update_first (owned_by assessment_id (u_id usr))
                      (\<lambda>a. a\<lparr>a_status := ''completed'',
                              overall_score := Some (res_overall_score res),
                              category_scores := Some (res_category_scores res),
                              recommendations := Some (res_recommendations res),
                              completed_at := Some now,
                              updated_at := now\<rparr>)
                      (assessments d),
                  analytics_events :=
                    analytics_events d @
                      [\<lparr>ev_id = fresh_id (map ev_id (analytics_events d)),
                        event_type = ''assessment_completed'',
                        ev_user_id = Some (u_id usr),
                        ev_assessment_id = Some (a_id a),
                        event_data =
                          Some (JObj [(''overall_score'', JNum (res_overall_score res))]),
                        ev_created_at = now\<rparr>]\<rparr>)))"

subsection \<open>Registration\<close>

record user_create =
  uc_email :: string
  uc_password :: string
  uc_name :: "string option"
  uc_organization :: "string option"

record auth_reply =
  message :: string
  token :: string
  reply_email :: string
  reply_name :: "string option"

text \<open>
  The password digest (\<^verbatim>\<open>pwd_context.hash\<close>) and the token encoder
  (\<^verbatim>\<open>create_access_token\<close>, from the user id and the expiry time) are parameters.
\<close>

definition access_token_expire_days :: nat where
  "access_token_expire_days = 30"

definition register ::
  "(string \<Rightarrow> string) \<Rightarrow> (int \<Rightarrow> nat \<Rightarrow> string) \<Rightarrow> db \<Rightarrow> nat \<Rightarrow> user_create
   \<Rightarrow> (error + auth_reply) \<times> db" where
  "register pwd_hash encode_token d now user_data =
     (case find (\<lambda>u. email u = uc_email user_data) (users d) of
        Some existing \<Rightarrow> (Inl (HTTPException 400 ''Email already registered''), d)
      | None \<Rightarrow>
          (let usr = \<lparr>u_id = fresh_id (map u_id (users d)),
                      email = uc_email user_data,
                      hashed_password = pwd_hash (uc_password user_data),
                      u_organization = uc_organization user_data,
                      u_name = uc_name user_data,
                      u_created_at = now,
                      last_login = None\<rparr>;
               event = \<lparr>ev_id = fresh_id (map ev_id (analytics_events d)),
                        event_type = ''user_registered'',
                        ev_user_id = Some (u_id usr),
                        ev_assessment_id = None,
                        event_data = None,
                        ev_created_at = now\<rparr>;
               tok = encode_token (u_id usr) (now + access_token_expire_days * 86400)
           in (Inr \<lparr>message = ''Registration successful'', token = tok,
                    reply_email = email usr, reply_name = u_name usr\<rparr>,
               d\<lparr>users := users d @ [usr],
                 analytics_events := analytics_events d @ [event]\<rparr>)))"

section \<open>The specified quantities\<close>

text \<open>
  The quantities of the specification, written after its words rather than after the loops
  of the handler; the theorems below compare the two.

  The specified data model: every stored response is a JSON object (with the keys
  \<^verbatim>\<open>answer\<close> and \<^verbatim>\<open>notes\<close>), and the weights and impacts of the catalog are
  non-negative.
\<close>

definition is_object :: "json \<Rightarrow> bool" where
  "is_object j = (case j of JObj kvs \<Rightarrow> True | _ \<Rightarrow> False)"

definition leaf_ok :: "cat_responses \<Rightarrow> question \<Rightarrow> bool" where
  "leaf_ok cr q = (case cr (q_id q) of None \<Rightarrow> True | Some leaf \<Rightarrow> is_object leaf)"

definition responses_wellformed :: "catalog \<Rightarrow> responses_map \<Rightarrow> bool" where
  "responses_wellformed cat r =
     list_all (\<lambda>c. list_all (leaf_ok (get_cat_responses r (cat_id c))) (questions c))
       (categories cat)"


text \<open>The answer to a question, \<^verbatim>\<open>"no"\<close> when the question is unanswered.\<close>

definition answer_at :: "responses_map \<Rightarrow> category \<Rightarrow> question \<Rightarrow> json" where
  "answer_at r c q =
     (case r (cat_id c) of
        None \<Rightarrow> JStr ''no''
      | Some cr \<Rightarrow>
          (case cr (q_id q) of
             Some (JObj kvs) \<Rightarrow> (case map_of kvs ''answer'' of None \<Rightarrow> JStr ''no'' | Some a \<Rightarrow> a)
           | _ \<Rightarrow> JStr ''no''))"

text \<open>Maximum and attained points of a question, of a category, and the raw percentage.\<close>

definition question_max :: "question \<Rightarrow> rat" where
  "question_max q = 2 * get_impact q"

definition question_attained :: "question \<Rightarrow> json \<Rightarrow> rat" where
  "question_attained q a =
     (if a = JStr ''yes'' then 2 * get_impact q
      else if a = JStr ''partial'' then 1 * get_impact q else 0)"

definition category_max :: "category \<Rightarrow> rat" where
  "category_max c = sum_list (map question_max (questions c))"

definition category_attained :: "responses_map \<Rightarrow> category \<Rightarrow> rat" where
  "category_attained r c =
     sum_list (map (\<lambda>q. question_attained q (answer_at r c q)) (questions c))"


definition total_weight :: "catalog \<Rightarrow> rat" where
  "total_weight cat = sum_list (map cat_weight (categories cat))"


text \<open>
  The raw percentage and the entry of a category as the loop computes them from the two
  sums (with the guard \<^verbatim>\<open>max_score > 0\<close>).
\<close>

definition raw_pct :: "responses_map \<Rightarrow> category \<Rightarrow> rat" where
  "raw_pct r c = raw_pct_of (category_max c) (category_attained r c)"

definition score_entry :: "responses_map \<Rightarrow> category \<Rightarrow> category_score" where
  "score_entry r c =
     \<lparr>cs_name = cat_name c, raw_score = pyround (raw_pct r c) 1,
      weighted_score = pyround (raw_pct r c * cat_weight c) 2, status = status_of (raw_pct r c)\<rparr>"

text \<open>
  The candidate recommendations: one for every question answered \<^verbatim>\<open>"no"\<close> or
  \<^verbatim>\<open>"partial"\<close>, in the order of the catalog.
\<close>

definition needs_recommendation :: "json \<Rightarrow> bool" where
  "needs_recommendation a \<longleftrightarrow> a = JStr ''no'' \<or> a = JStr ''partial''"

definition candidate :: "category \<Rightarrow> question \<Rightarrow> json \<Rightarrow> recommendation" where
  "candidate c q a =
     \<lparr>rec_category = cat_name c, rec_question = q_text q, current_answer = a,
      rec_guidance = get_guidance q, rec_impact = get_impact q,
      priority_score = cat_weight c * get_impact q * (if a = JStr ''no'' then 2 else 1)\<rparr>"

definition category_candidates :: "responses_map \<Rightarrow> category \<Rightarrow> recommendation list" where
  "category_candidates r c =
     map (\<lambda>q. candidate c q (answer_at r c q))
       (filter (\<lambda>q. needs_recommendation (answer_at r c q)) (questions c))"

definition candidates :: "catalog \<Rightarrow> responses_map \<Rightarrow> recommendation list" where
  "candidates cat r = concat (map (category_candidates r) (categories cat))"


definition all_answered_no :: "catalog \<Rightarrow> responses_map \<Rightarrow> bool" where
  "all_answered_no cat r \<longleftrightarrow>
     responses_wellformed cat r \<and>
     list_all (\<lambda>c. list_all (\<lambda>q. answer_at r c q = JStr ''no'') (questions c)) (categories cat)"



definition stored_results ::
  "assessment \<Rightarrow> rat option \<times> (string \<times> category_score) list option \<times> recommendation list option" where
  "stored_results a = (overall_score a, category_scores a, recommendations a)"

definition store_results :: "completion \<Rightarrow> nat \<Rightarrow> assessment \<Rightarrow> assessment" where
  "store_results res now =
     (\<lambda>a. a\<lparr>a_status := ''completed'',
       overall_score := Some (res_overall_score res),
       category_scores := Some (res_category_scores res),
       recommendations := Some (res_recommendations res),
       completed_at := Some now,
       updated_at := now\<rparr>)"

text \<open>The questions of the catalog that are stored under a category id and question id.\<close>

definition keyed_questions :: "catalog \<Rightarrow> string \<Rightarrow> string \<Rightarrow> question list" where
  "keyed_questions cat cid qid =
     concat (map (\<lambda>c. filter (\<lambda>q. cat_id c = cid \<and> q_id q = qid) (questions c)) (categories cat))"

section \<open>Example data\<close>

text \<open>
  A catalog of one category of weight 1 with two questions of impact 1, answered
  \<^verbatim>\<open>"yes"\<close> and \<^verbatim>\<open>"partial"\<close>.
\<close>

definition ex_catalog :: catalog where
  "ex_catalog =
     \<lparr>categories =
        [\<lparr>cat_id = ''1'', cat_name = ''Governance'', cat_weight = 1,
          questions =
            [\<lparr>q_id = ''1.1'', q_text = ''Is there a charter?'', impact = Some 1, guidance = None\<rparr>,
             \<lparr>q_id = ''1.2'', q_text = ''Is there a review?'', impact = None,
               guidance = Some ''Schedule a review''\<rparr>]\<rparr>],
      scoring = JObj []\<rparr>"




text \<open>
  Two users and an assessment of the first, with two stored answers; a submission for one
  question of the same category; a registration with the first user's email.
\<close>

definition ex_user :: user where
  "ex_user =
     \<lparr>u_id = 1, email = ''ada@example.org'', hashed_password = ''5e88'',
      u_organization = None, u_name = Some ''Ada'', u_created_at = 0, last_login = None\<rparr>"

definition ex_other_user :: user where
  "ex_other_user =
     \<lparr>u_id = 2, email = ''bob@example.org'', hashed_password = ''9f86'',
      u_organization = None, u_name = None, u_created_at = 1, last_login = None\<rparr>"

definition ex_stored_responses :: responses_map where
  "ex_stored_responses =
     [''1'' \<mapsto> [''1.1'' \<mapsto> JObj [(''answer'', JStr ''yes'')],
                ''1.2'' \<mapsto> JObj [(''answer'', JStr ''no'')]]]"

definition ex_assessment :: assessment where
  "ex_assessment =
     \<lparr>a_id = 1, user_id = 1, program_name = ''Intro course'', a_organization = None,
      program_level = ''introductory'', target_audience = [], delivery_format = [],
      program_duration = None, assessor_role = None, a_status = ''in_progress'',
      current_category = 1, responses = Some ex_stored_responses, overall_score = None,
      category_scores = None, recommendations = None, created_at = 2, updated_at = 2,
      completed_at = None\<rparr>"

definition ex_db :: db where
  "ex_db = \<lparr>users = [ex_user, ex_other_user], assessments = [ex_assessment],
            analytics_events = []\<rparr>"

definition ex_submission :: responses_map where
  "ex_submission = [''1'' \<mapsto> [''1.1'' \<mapsto> JObj [(''answer'', JStr ''partial'')]]]"

definition ex_new_user :: user_create where
  "ex_new_user =
     \<lparr>uc_email = ''ada@example.org'', uc_password = ''secret'', uc_name = Some ''Ada L'',
      uc_organization = None\<rparr>"

text \<open>Responses with an answer that is none of the three the scoring knows.\<close>

definition ex_question :: question where
  "ex_question =
     \<lparr>q_id = ''1.1'', q_text = ''Is there a charter?'', impact = Some 1, guidance = None\<rparr>"

definition ex_maybe_answers :: cat_responses where
  "ex_maybe_answers =
     [''1.1'' \<mapsto> JObj [(''answer'', JStr ''maybe'')],
      ''1.2'' \<mapsto> JObj [(''answer'', JStr ''yes'')]]"

definition ex_maybe_responses :: responses_map where
  "ex_maybe_responses = [''1'' \<mapsto> ex_maybe_answers]"

section \<open>The loops in closed form\<close>

text \<open>
  On well-formed responses no \<^verbatim>\<open>.get\<close> fails, and the running sums of the loops are
  the sums of the specification.
\<close>

lemma get_answer_ok:
  "leaf_ok (get_cat_responses r (cat_id c)) q \<Longrightarrow>
   get_answer (get_cat_responses r (cat_id c)) (q_id q) = Inr (answer_at r c q)"
  by (auto simp: leaf_ok_def get_answer_def answer_at_def get_cat_responses_def is_object_def
      split: option.splits json.splits)

lemma score_questions_sum:
  "list_all (leaf_ok (get_cat_responses r (cat_id c))) qs \<Longrightarrow>
   score_questions (get_cat_responses r (cat_id c)) qs m a =
     Inr (m + sum_list (map question_max qs),
          a + sum_list (map (\<lambda>q. question_attained q (answer_at r c q)) qs))"
proof (induction qs arbitrary: m a)
  case Nil
  then show ?case by simp
next
  case (Cons q qs)
  then show ?case
    by (simp add: get_answer_ok question_max_def question_attained_def)
qed

lemma score_categories_closed:
  "list_all (\<lambda>c. list_all (leaf_ok (get_cat_responses r (cat_id c))) (questions c)) cs \<Longrightarrow>
   score_categories r cs sc tws tw =
     Inr (foldl (\<lambda>acc c. dict_set (cat_id c) (score_entry r c) acc) sc cs,
          tws + sum_list (map (\<lambda>c. raw_pct r c * cat_weight c) cs),
          tw + sum_list (map cat_weight cs))"
proof (induction cs arbitrary: sc tws tw)
  case Nil
  then show ?case by simp
next
  case (Cons c cs)
  then show ?case
    by (simp add: score_questions_sum raw_pct_def score_entry_def category_max_def
        category_attained_def Let_def algebra_simps)
qed




lemma recommend_questions_closed:
  "list_all (leaf_ok (get_cat_responses r (cat_id c))) qs \<Longrightarrow>
   recommend_questions c (get_cat_responses r (cat_id c)) qs recs =
     Inr (recs @ map (\<lambda>q. candidate c q (answer_at r c q))
                   (filter (\<lambda>q. needs_recommendation (answer_at r c q)) qs))"
proof (induction qs arbitrary: recs)
  case Nil
  then show ?case by simp
next
  case (Cons q qs)
  then show ?case
    by (simp add: get_answer_ok needs_recommendation_def make_recommendation_def candidate_def)
qed

lemma recommend_categories_closed:
  "list_all (\<lambda>c. list_all (leaf_ok (get_cat_responses r (cat_id c))) (questions c)) cs \<Longrightarrow>
   recommend_categories r cs recs = Inr (recs @ concat (map (category_candidates r) cs))"
proof (induction cs arbitrary: recs)
  case Nil
  then show ?case by simp
next
  case (Cons c cs)
  then show ?case
    by (simp add: recommend_questions_closed category_candidates_def)
qed









lemma pyround_0: "pyround 0 n = 0"
  by (simp add: pyround_def round_half_even_def)






lemma compute_completion_closed:
  assumes "responses_wellformed cat r"
  shows "compute_completion cat r =
     Inr \<lparr>res_overall_score =
            overall_of (sum_list (map (\<lambda>c. raw_pct r c * cat_weight c) (categories cat)))
              (total_weight cat),
          res_category_scores =
            foldl (\<lambda>acc c. dict_set (cat_id c) (score_entry r c) acc) [] (categories cat),
          res_recommendations = take 10 (sort_recommendations (candidates cat r)),
          res_readiness =
            readiness_of
              (overall_of (sum_list (map (\<lambda>c. raw_pct r c * cat_weight c) (categories cat)))
                 (total_weight cat))\<rparr>"
  using assms
  by (simp add: compute_completion_def responses_wellformed_def score_categories_closed
      recommend_categories_closed candidates_def total_weight_def Let_def)


















lemma sum_list_all_zero:
  "\<forall>x\<in>set xs. f x = (0::rat) \<Longrightarrow> sum_list (map f xs) = 0"
  by (induction xs) simp_all

lemma category_attained_all_no:
  assumes "list_all (\<lambda>q. answer_at r c q = JStr ''no'') (questions c)"
  shows "category_attained r c = 0"
proof -
  have "\<forall>q\<in>set (questions c). question_attained q (answer_at r c q) = 0"
    using assms by (simp add: list_all_iff question_attained_def)
  then show ?thesis unfolding category_attained_def by (rule sum_list_all_zero)
qed

section \<open>Queries and updates of the assessment table\<close>

lemma find_update_first:
  assumes "\<And>x. P x \<Longrightarrow> P (f x)"
  shows "find P (update_first P f xs) = map_option f (find P xs)"
  using assms by (induction xs) auto

lemma find_None_iff_not_ex: "find P xs = None \<longleftrightarrow> \<not> (\<exists>x\<in>set xs. P x)"
  by (induction xs) auto

lemma find_Some_holds: "find P xs = Some x \<Longrightarrow> P x"
  by (induction xs) (auto split: if_splits)


lemma get_answer_error: "get_answer cr qid = Inl e \<Longrightarrow> e = AttributeError"
  by (cases "cr qid"; cases "the (cr qid)") (auto simp: get_answer_def)

lemma score_questions_error:
  "score_questions cr qs m s = Inl e \<Longrightarrow> e = AttributeError"
  by (induction qs arbitrary: m s) (auto split: sum.splits dest: get_answer_error)

lemma score_categories_error:
  "score_categories r cs sc tws tw = Inl e \<Longrightarrow> e = AttributeError"
  by (induction cs arbitrary: sc tws tw)
     (auto split: sum.splits prod.splits simp: Let_def dest: score_questions_error)

lemma recommend_questions_error:
  "recommend_questions c cr qs recs = Inl e \<Longrightarrow> e = AttributeError"
  by (induction qs arbitrary: recs) (auto split: sum.splits if_splits dest: get_answer_error)

lemma recommend_categories_error:
  "recommend_categories r cs recs = Inl e \<Longrightarrow> e = AttributeError"
  by (induction cs arbitrary: recs) (auto split: sum.splits dest: recommend_questions_error)

lemma compute_completion_error:
  "compute_completion cat r = Inl e \<Longrightarrow> e = AttributeError"
  by (auto simp: compute_completion_def Let_def split: sum.splits prod.splits
      dest: score_categories_error recommend_categories_error)

lemma query_after_update_gen:
  assumes "assessments d' = update_first (owned_by aid uid) f (assessments d)"
    and "\<And>a. a_id (f a) = a_id a \<and> user_id (f a) = user_id a"
  shows "query_assessment d' aid uid = map_option f (query_assessment d aid uid)"
  unfolding query_assessment_def assms(1)
  using find_update_first [of "owned_by aid uid" f "assessments d"] assms(2)
  by (simp add: owned_by_def)

lemma complete_assessment_success:
  assumes "query_assessment d aid (u_id usr) = Some a"
    and "compute_completion cat (responses_or_empty a) = Inr res"
  shows "fst (complete_assessment cat d now usr aid) = Inr res"
    and "query_assessment (snd (complete_assessment cat d now usr aid)) aid (u_id usr) =
         Some (store_results res now a)"
proof -
  show "fst (complete_assessment cat d now usr aid) = Inr res"
    using assms by (simp add: complete_assessment_def)
  have "assessments (snd (complete_assessment cat d now usr aid)) =
      update_first (owned_by aid (u_id usr)) (store_results res now) (assessments d)"
    using assms by (simp add: complete_assessment_def store_results_def)
  then have "query_assessment (snd (complete_assessment cat d now usr aid)) aid (u_id usr) =
      map_option (store_results res now) (query_assessment d aid (u_id usr))"
    by (rule query_after_update_gen) (simp add: store_results_def)
  then show "query_assessment (snd (complete_assessment cat d now usr aid)) aid (u_id usr) =
         Some (store_results res now a)"
    using assms by simp
qed

lemma complete_assessment_failure:
  assumes "query_assessment d aid (u_id usr) = None \<or>
     (\<exists>a e. query_assessment d aid (u_id usr) = Some a \<and>
        compute_completion cat (responses_or_empty a) = Inl e)"
  shows "snd (complete_assessment cat d now usr aid) = d"
    and "fst (complete_assessment cat d now' usr aid) = fst (complete_assessment cat d now usr aid)"
  using assms by (auto simp: complete_assessment_def)

section \<open>An answer replaced by no answer\<close>

lemma answer_at_unanswer:
  assumes "r cid = Some cr"
  shows "answer_at (r(cid \<mapsto> cr(qid := None))) c q =
     (if cat_id c = cid \<and> q_id q = qid then JStr ''no'' else answer_at r c q)"
  using assms by (simp add: answer_at_def)

lemma answer_at_stored:
  assumes "r cid = Some cr" "cr qid = Some (JObj kvs)" "map_of kvs ''answer'' = Some a"
    and "cat_id c = cid" "q_id q = qid"
  shows "answer_at r c q = a"
  using assms by (simp add: answer_at_def)

lemma leaf_ok_unanswer:
  assumes "r cid = Some cr" and "leaf_ok (get_cat_responses r (cat_id c)) q"
  shows "leaf_ok (get_cat_responses (r(cid \<mapsto> cr(qid := None))) (cat_id c)) q"
  using assms by (auto simp: leaf_ok_def get_cat_responses_def)

lemma responses_wellformed_unanswer:
  assumes "r cid = Some cr" and "responses_wellformed cat r"
  shows "responses_wellformed cat (r(cid \<mapsto> cr(qid := None)))"
  using assms unfolding responses_wellformed_def list_all_iff
  by (blast intro: leaf_ok_unanswer)

lemma candidates_current_answer:
  "x \<in> set (candidates cat r) \<Longrightarrow> needs_recommendation (current_answer x)"
  by (auto simp: candidates_def category_candidates_def candidate_def)

lemma length_filter_split:
  assumes "\<And>q. q \<in> set qs \<Longrightarrow> P' q \<longleftrightarrow> K q \<or> P q" "\<And>q. q \<in> set qs \<Longrightarrow> K q \<Longrightarrow> \<not> P q"
  shows "length (filter P' qs) = length (filter P qs) + length (filter K qs)"
  using assms by (induction qs) auto

lemma unrecognised_same_attained:
  assumes st: "r cid = Some cr" "cr qid = Some (JObj kvs)" "map_of kvs ''answer'' = Some a"
    and other: "a \<noteq> JStr ''yes''" "a \<noteq> JStr ''partial''"
  shows "question_attained q (answer_at (r(cid \<mapsto> cr(qid := None))) c q) =
         question_attained q (answer_at r c q)"
proof (cases "cat_id c = cid \<and> q_id q = qid")
  case True
  then have "answer_at r c q = a" using st by (simp add: answer_at_def)
  then show ?thesis using True other st(1) by (simp add: answer_at_unanswer question_attained_def)
next
  case False
  then show ?thesis using st(1) by (auto simp: answer_at_unanswer)
qed

lemma unrecognised_same_raw_pct:
  assumes st: "r cid = Some cr" "cr qid = Some (JObj kvs)" "map_of kvs ''answer'' = Some a"
    and other: "a \<noteq> JStr ''yes''" "a \<noteq> JStr ''partial''"
  shows "raw_pct (r(cid \<mapsto> cr(qid := None))) c = raw_pct r c"
proof -
  have "map (\<lambda>q. question_attained q (answer_at (r(cid \<mapsto> cr(qid := None))) c q)) (questions c) =
        map (\<lambda>q. question_attained q (answer_at r c q)) (questions c)"
    using unrecognised_same_attained [of r cid cr qid kvs a _ c] st other by simp
  then have "category_attained (r(cid \<mapsto> cr(qid := None))) c = category_attained r c"
    unfolding category_attained_def by (rule arg_cong)
  then show ?thesis by (simp add: raw_pct_def)
qed

lemma unrecognised_candidates_length:
  assumes st: "r cid = Some cr" "cr qid = Some (JObj kvs)" "map_of kvs ''answer'' = Some a"
    and other: "a \<noteq> JStr ''partial''" "a \<noteq> JStr ''no''"
  shows "length (concat (map (category_candidates (r(cid \<mapsto> cr(qid := None)))) cs)) =
         length (concat (map (category_candidates r) cs)) +
         length (concat (map (\<lambda>c. filter (\<lambda>q. cat_id c = cid \<and> q_id q = qid) (questions c)) cs))"
proof (induction cs)
  case Nil
  then show ?case by simp
next
  case (Cons c cs)
  have "length (filter (\<lambda>q. needs_recommendation (answer_at (r(cid \<mapsto> cr(qid := None))) c q))
           (questions c)) =
        length (filter (\<lambda>q. needs_recommendation (answer_at r c q)) (questions c)) +
        length (filter (\<lambda>q. cat_id c = cid \<and> q_id q = qid) (questions c))"
  proof (rule length_filter_split)
    fix q
    show "needs_recommendation (answer_at (r(cid \<mapsto> cr(qid := None))) c q) \<longleftrightarrow>
        (cat_id c = cid \<and> q_id q = qid) \<or> needs_recommendation (answer_at r c q)"
      using st(1) by (auto simp: answer_at_unanswer needs_recommendation_def)
    show "\<not> needs_recommendation (answer_at r c q)" if "cat_id c = cid \<and> q_id q = qid"
    proof -
      have "answer_at r c q = a" using st that by (simp add: answer_at_def)
      then show ?thesis using other by (simp add: needs_recommendation_def)
    qed
  qed
  then have "length (category_candidates (r(cid \<mapsto> cr(qid := None))) c) =
        length (category_candidates r c) +
        length (filter (\<lambda>q. cat_id c = cid \<and> q_id q = qid) (questions c))"
    by (simp only: category_candidates_def length_map)
  with Cons.IH show ?case
    by (simp only: list.map concat.simps length_append)
qed

section \<open>Scores\<close>



section \<open>Recommendations\<close>



section \<open>Bounds\<close>



section \<open>All questions answered alike\<close>




text \<open>
  C7. When every question is answered \<^verbatim>\<open>"no"\<close> or left unanswered, the overall score
  is 0 and the candidate list built by the second loop, before sorting and truncation, has
  one candidate for every question of every category, in the order of the catalog.
\<close>

theorem all_no_gives_0:
  assumes no: "all_answered_no cat r"
  shows "\<exists>res. compute_completion cat r = Inr res \<and> res_overall_score res = 0 \<and>
     recommend_categories r (categories cat) [] =
       Inr (concat (map (\<lambda>c. map (\<lambda>q. candidate c q (JStr ''no'')) (questions c))
                     (categories cat)))"
proof -
  have wf: "responses_wellformed cat r" using no by (simp add: all_answered_no_def)
  have answers: "\<forall>c\<in>set (categories cat). \<forall>q\<in>set (questions c). answer_at r c q = JStr ''no''"
    using no by (simp add: all_answered_no_def list_all_iff)
  have "raw_pct r c * cat_weight c = 0" if "c \<in> set (categories cat)" for c
  proof -
    have "category_attained r c = 0"
      using answers that by (intro category_attained_all_no) (simp add: list_all_iff)
    then show ?thesis by (simp add: raw_pct_def raw_pct_of_def)
  qed
  then have "sum_list (map (\<lambda>c. raw_pct r c * cat_weight c) (categories cat)) = 0"
    by (intro sum_list_all_zero) simp
  then have ov: "overall_of (sum_list (map (\<lambda>c. raw_pct r c * cat_weight c) (categories cat)))
        (total_weight cat) = 0"
    by (simp add: overall_of_def pyround_0)
  have "category_candidates r c = map (\<lambda>q. candidate c q (JStr ''no'')) (questions c)"
    if "c \<in> set (categories cat)" for c
  proof -
    have "filter (\<lambda>q. needs_recommendation (answer_at r c q)) (questions c) = questions c"
      using answers that by (simp add: needs_recommendation_def)
    then show ?thesis using answers that by (simp add: category_candidates_def)
  qed
  then have "map (category_candidates r) (categories cat) =
       map (\<lambda>c. map (\<lambda>q. candidate c q (JStr ''no'')) (questions c)) (categories cat)"
    by simp
  then have "concat (map (category_candidates r) (categories cat)) =
       concat (map (\<lambda>c. map (\<lambda>q. candidate c q (JStr ''no'')) (questions c)) (categories cat))"
    by (rule arg_cong)
  moreover have "recommend_categories r (categories cat) [] =
       Inr (concat (map (category_candidates r) (categories cat)))"
    using wf recommend_categories_closed [of r "categories cat" "[]"]
    by (simp add: responses_wellformed_def)
  ultimately have "recommend_categories r (categories cat) [] =
       Inr (concat (map (\<lambda>c. map (\<lambda>q. candidate c q (JStr ''no'')) (questions c))
                     (categories cat)))"
    by (simp only:)
  then show ?thesis
    using compute_completion_closed [OF wf] ov by simp
qed

theorem all_no_gives_0_witness:
  "all_answered_no ex_catalog [''1'' \<mapsto> [''1.2'' \<mapsto> JObj [(''answer'', JStr ''no'')]]] \<and>
   (\<exists>res. compute_completion ex_catalog [''1'' \<mapsto> [''1.2'' \<mapsto> JObj [(''answer'', JStr ''no'')]]]
        = Inr res \<and> res_overall_score res = 0) \<and>
   recommend_categories [''1'' \<mapsto> [''1.2'' \<mapsto> JObj [(''answer'', JStr ''no'')]]]
     (categories ex_catalog) [] =
     Inr [\<lparr>rec_category = ''Governance'', rec_question = ''Is there a charter?'',
           current_answer = JStr ''no'', rec_guidance = [], rec_impact = 1, priority_score = 2\<rparr>,
          \<lparr>rec_category = ''Governance'', rec_question = ''Is there a review?'',
           current_answer = JStr ''no'', rec_guidance = ''Schedule a review'', rec_impact = 1,
           priority_score = 2\<rparr>]"
proof -
  let ?r = "[''1'' \<mapsto> [''1.2'' \<mapsto> JObj [(''answer'', JStr ''no'')]]]"
  have no: "all_answered_no ex_catalog ?r"
    by (simp add: all_answered_no_def responses_wellformed_def ex_catalog_def answer_at_def
        leaf_ok_def get_cat_responses_def is_object_def)
  have "concat (map (\<lambda>c. map (\<lambda>q. candidate c q (JStr ''no'')) (questions c))
                     (categories ex_catalog)) =
     [\<lparr>rec_category = ''Governance'', rec_question = ''Is there a charter?'',
           current_answer = JStr ''no'', rec_guidance = [], rec_impact = 1, priority_score = 2\<rparr>,
          \<lparr>rec_category = ''Governance'', rec_question = ''Is there a review?'',
           current_answer = JStr ''no'', rec_guidance = ''Schedule a review'', rec_impact = 1,
           priority_score = 2\<rparr>]"
    by (simp add: ex_catalog_def candidate_def get_impact_def get_guidance_def)
  with all_no_gives_0 [OF no] no show ?thesis by auto
qed

section \<open>Handlers\<close>




text \<open>
  C4. Completing an assessment a second time, with the responses unchanged, gives the reply
  of the first time and leaves the same overall score, category scores and
  recommendations in the row; a successful reply is the value computed from the catalog and
  the stored responses alone, and it is what the row then holds.
\<close>

theorem complete_assessment_idempotent:
  "(let first = complete_assessment cat d now usr assessment_id;
        second = complete_assessment cat (snd first) now' usr assessment_id
    in fst second = fst first \<and>
       map_option stored_results (query_assessment (snd second) assessment_id (u_id usr)) =
         map_option stored_results (query_assessment (snd first) assessment_id (u_id usr)) \<and>
       (\<forall>res. fst first = Inr res \<longrightarrow>
          (\<exists>a. query_assessment d assessment_id (u_id usr) = Some a \<and>
               compute_completion cat (responses_or_empty a) = Inr res) \<and>
          map_option stored_results (query_assessment (snd first) assessment_id (u_id usr)) =
            Some (Some (res_overall_score res), Some (res_category_scores res),
                  Some (res_recommendations res))))"
proof -
  let ?first = "complete_assessment cat d now usr assessment_id"
  let ?second = "complete_assessment cat (snd ?first) now' usr assessment_id"
  consider (fail) "query_assessment d assessment_id (u_id usr) = None \<or>
     (\<exists>a e. query_assessment d assessment_id (u_id usr) = Some a \<and>
        compute_completion cat (responses_or_empty a) = Inl e)"
    | (ok) a res where "query_assessment d assessment_id (u_id usr) = Some a"
        "compute_completion cat (responses_or_empty a) = Inr res"
  proof (cases "query_assessment d assessment_id (u_id usr)")
    case None
    then show ?thesis using fail by simp
  next
    case (Some a)
    show ?thesis
    proof (cases "compute_completion cat (responses_or_empty a)")
      case (Inl e)
      with Some show ?thesis using fail by blast
    next
      case (Inr res)
      with Some show ?thesis using ok by blast
    qed
  qed
  then have "fst ?second = fst ?first \<and>
       map_option stored_results (query_assessment (snd ?second) assessment_id (u_id usr)) =
         map_option stored_results (query_assessment (snd ?first) assessment_id (u_id usr)) \<and>
       (\<forall>res. fst ?first = Inr res \<longrightarrow>
          (\<exists>a. query_assessment d assessment_id (u_id usr) = Some a \<and>
               compute_completion cat (responses_or_empty a) = Inr res) \<and>
          map_option stored_results (query_assessment (snd ?first) assessment_id (u_id usr)) =
            Some (Some (res_overall_score res), Some (res_category_scores res),
                  Some (res_recommendations res)))"
  proof cases
    case fail
    have unchanged: "snd ?first = d" using fail by (rule complete_assessment_failure)
    have same: "fst ?second = fst ?first"
      unfolding unchanged using fail by (rule complete_assessment_failure)
    have "snd ?second = d"
      unfolding unchanged using fail by (rule complete_assessment_failure)
    moreover have "\<forall>res. fst ?first \<noteq> Inr res"
      using fail by (auto simp: complete_assessment_def)
    ultimately show ?thesis using same unchanged by simp
  next
    case ok
    have r1: "fst ?first = Inr res"
      and q1: "query_assessment (snd ?first) assessment_id (u_id usr) =
         Some (store_results res now a)"
      using ok by (rule complete_assessment_success)+
    have resp: "responses_or_empty (store_results res now a) = responses_or_empty a"
      by (simp add: store_results_def responses_or_empty_def)
    have c2: "compute_completion cat (responses_or_empty (store_results res now a)) = Inr res"
      using ok(2) by (simp only: resp)
    have r2: "fst ?second = Inr res"
      and q2: "query_assessment (snd ?second) assessment_id (u_id usr) =
         Some (store_results res now' (store_results res now a))"
      using q1 c2 by (rule complete_assessment_success)+
    have "stored_results (store_results res now' (store_results res now a)) =
        stored_results (store_results res now a)"
      "stored_results (store_results res now a) =
        (Some (res_overall_score res), Some (res_category_scores res),
         Some (res_recommendations res))"
      by (simp_all add: stored_results_def store_results_def)
    then show ?thesis using r1 r2 q1 q2 ok by simp
  qed
  then show ?thesis unfolding Let_def .
qed

theorem complete_assessment_idempotent_witness:
  "\<exists>res. fst (complete_assessment ex_catalog ex_db 7 ex_user 1) = Inr res \<and>
     fst (complete_assessment ex_catalog (snd (complete_assessment ex_catalog ex_db 7 ex_user 1))
            9 ex_user 1) = Inr res \<and>
     map_option stored_results
       (query_assessment
          (snd (complete_assessment ex_catalog
                  (snd (complete_assessment ex_catalog ex_db 7 ex_user 1)) 9 ex_user 1))
          1 (u_id ex_user)) =
       Some (Some (res_overall_score res), Some (res_category_scores res),
             Some (res_recommendations res))"
proof -
  have found: "query_assessment ex_db 1 (u_id ex_user) = Some ex_assessment"
    by (simp add: query_assessment_def ex_db_def ex_user_def ex_assessment_def owned_by_def)
  have "responses_wellformed ex_catalog (responses_or_empty ex_assessment)"
    by (simp add: responses_wellformed_def ex_catalog_def ex_assessment_def
        ex_stored_responses_def responses_or_empty_def leaf_ok_def get_cat_responses_def
        is_object_def)
  then obtain res where "compute_completion ex_catalog (responses_or_empty ex_assessment) = Inr res"
    using compute_completion_closed by blast
  with found have first: "fst (complete_assessment ex_catalog ex_db 7 ex_user 1) = Inr res"
    by (rule complete_assessment_success)
  with complete_assessment_idempotent [of ex_catalog ex_db 7 ex_user 1 9]
  show ?thesis unfolding Let_def by (intro exI [of _ res]) simp
qed

text \<open>
  C8. When no assessment with the requested id belongs to the user, reading it, updating
  its responses and completing it each fail with status 404 and leave the tables as they
  are; when there is one, reading returns it, updating succeeds, and completing raises no
  HTTP error.
\<close>

theorem assessments_scoped_to_owner:
  "(\<not> (\<exists>a\<in>set (assessments d). a_id a = assessment_id \<and> user_id a = u_id usr) \<longrightarrow>
      get_assessment d usr assessment_id = (Inl (HTTPException 404 ''Assessment not found''), d) \<and>
      update_responses d now usr assessment_id new_responses =
        (Inl (HTTPException 404 ''Assessment not found''), d) \<and>
      complete_assessment cat d now usr assessment_id =
        (Inl (HTTPException 404 ''Assessment not found''), d)) \<and>
   ((\<exists>a\<in>set (assessments d). a_id a = assessment_id \<and> user_id a = u_id usr) \<longrightarrow>
      (\<exists>a. get_assessment d usr assessment_id = (Inr a, d) \<and>
           a_id a = assessment_id \<and> user_id a = u_id usr) \<and>
      fst (update_responses d now usr assessment_id new_responses) = Inr ''Responses saved'' \<and>
      (\<forall>status detail. fst (complete_assessment cat d now usr assessment_id) \<noteq>
           Inl (HTTPException status detail)))"
proof -
  let ?P = "owned_by assessment_id (u_id usr)"
  have none: "query_assessment d assessment_id (u_id usr) = None"
    if "\<not> (\<exists>a\<in>set (assessments d). a_id a = assessment_id \<and> user_id a = u_id usr)"
    using that by (simp add: query_assessment_def find_None_iff_not_ex owned_by_def)
  have some: "\<exists>a. query_assessment d assessment_id (u_id usr) = Some a \<and>
      a_id a = assessment_id \<and> user_id a = u_id usr"
    if "\<exists>a\<in>set (assessments d). a_id a = assessment_id \<and> user_id a = u_id usr"
  proof -
    from that have "find ?P (assessments d) \<noteq> None"
      by (simp add: find_None_iff_not_ex owned_by_def)
    then obtain a where a: "find ?P (assessments d) = Some a" by blast
    then have "?P a" by (rule find_Some_holds)
    with a show ?thesis by (simp add: query_assessment_def owned_by_def)
  qed
  show ?thesis
  proof (intro conjI impI)
    assume no: "\<not> (\<exists>a\<in>set (assessments d). a_id a = assessment_id \<and> user_id a = u_id usr)"
    show "get_assessment d usr assessment_id =
        (Inl (HTTPException 404 ''Assessment not found''), d)"
      using none [OF no] by (simp add: get_assessment_def not_found_def)
    show "update_responses d now usr assessment_id new_responses =
        (Inl (HTTPException 404 ''Assessment not found''), d)"
      using none [OF no] by (simp add: update_responses_def not_found_def)
    show "complete_assessment cat d now usr assessment_id =
        (Inl (HTTPException 404 ''Assessment not found''), d)"
      using none [OF no] by (simp add: complete_assessment_def not_found_def)
  next
    assume ex: "\<exists>a\<in>set (assessments d). a_id a = assessment_id \<and> user_id a = u_id usr"
    then obtain a where a: "query_assessment d assessment_id (u_id usr) = Some a"
      "a_id a = assessment_id" "user_id a = u_id usr"
      using some by blast
    show "\<exists>a. get_assessment d usr assessment_id = (Inr a, d) \<and>
           a_id a = assessment_id \<and> user_id a = u_id usr"
      using a by (simp add: get_assessment_def)
    show "fst (update_responses d now usr assessment_id new_responses) = Inr ''Responses saved''"
      using a by (simp add: update_responses_def Let_def)
    show "\<forall>status detail. fst (complete_assessment cat d now usr assessment_id) \<noteq>
           Inl (HTTPException status detail)"
    proof (intro allI)
      fix status detail
      have "compute_completion cat r \<noteq> Inl (HTTPException status detail)" for r
        using compute_completion_error [of cat r "HTTPException status detail"] by auto
      then show "fst (complete_assessment cat d now usr assessment_id) \<noteq>
           Inl (HTTPException status detail)"
        using a by (auto simp: complete_assessment_def split: sum.splits)
    qed
  qed
qed

theorem assessments_scoped_to_owner_witness:
  "\<not> (\<exists>a\<in>set (assessments ex_db). a_id a = 1 \<and> user_id a = u_id ex_other_user) \<and>
   get_assessment ex_db ex_other_user 1 = (Inl (HTTPException 404 ''Assessment not found''), ex_db) \<and>
   update_responses ex_db 5 ex_other_user 1 ex_submission =
     (Inl (HTTPException 404 ''Assessment not found''), ex_db) \<and>
   complete_assessment ex_catalog ex_db 5 ex_other_user 1 =
     (Inl (HTTPException 404 ''Assessment not found''), ex_db) \<and>
   get_assessment ex_db ex_user 1 = (Inr ex_assessment, ex_db)"
proof -
  have other: "\<not> (\<exists>a\<in>set (assessments ex_db). a_id a = 1 \<and> user_id a = u_id ex_other_user)"
    by (simp add: ex_db_def ex_assessment_def ex_other_user_def)
  have own: "\<exists>a\<in>set (assessments ex_db). a_id a = 1 \<and> user_id a = u_id ex_user"
    by (simp add: ex_db_def ex_assessment_def ex_user_def)
  have "\<exists>a. get_assessment ex_db ex_user 1 = (Inr a, ex_db) \<and> a_id a = 1 \<and> user_id a = u_id ex_user"
    using assessments_scoped_to_owner [of ex_db 1 ex_user 5 ex_submission ex_catalog] own
    by blast
  moreover have "get_assessment ex_db ex_user 1 = (Inr a, ex_db) \<Longrightarrow> a = ex_assessment" for a
    by (simp add: get_assessment_def query_assessment_def ex_db_def ex_user_def
        ex_assessment_def owned_by_def)
  ultimately have "get_assessment ex_db ex_user 1 = (Inr ex_assessment, ex_db)" by blast
  with other assessments_scoped_to_owner [of ex_db 1 ex_other_user 5 ex_submission ex_catalog]
  show ?thesis by blast
qed

text \<open>
  C9. Registering an email that a user row already has fails with the HTTP error "Email
  already registered" (status 400) and leaves the tables, so the user table, unchanged.
\<close>

theorem register_duplicate_email_rejected:
  assumes "\<exists>u\<in>set (users d). email u = uc_email user_data"
  shows "register pwd_hash encode_token d now user_data =
           (Inl (HTTPException 400 ''Email already registered''), d)"
proof -
  from assms have "find (\<lambda>u. email u = uc_email user_data) (users d) \<noteq> None"
    by (simp add: find_None_iff_not_ex)
  then show ?thesis by (auto simp: register_def)
qed

theorem register_duplicate_email_rejected_witness:
  "ex_user \<in> set (users ex_db) \<and> email ex_user = uc_email ex_new_user \<and>
   register (\<lambda>p. p) (\<lambda>sub exp. ''token'') ex_db 3 ex_new_user =
     (Inl (HTTPException 400 ''Email already registered''), ex_db) \<and>
   users (snd (register (\<lambda>p. p) (\<lambda>sub exp. ''token'') ex_db 3 ex_new_user)) = users ex_db"
proof -
  have mem: "ex_user \<in> set (users ex_db)" by (simp add: ex_db_def)
  have eq: "email ex_user = uc_email ex_new_user" by (simp add: ex_user_def ex_new_user_def)
  from mem eq have "\<exists>u\<in>set (users ex_db). email u = uc_email ex_new_user" by blast
  from register_duplicate_email_rejected [OF this, of "\<lambda>p. p" "\<lambda>sub exp. ''token''" 3] mem eq
  show ?thesis by simp
qed

section \<open>Answers outside the three known values\<close>

text \<open>
  C10. A stored answer that is none of \<^verbatim>\<open>"yes"\<close>, \<^verbatim>\<open>"partial"\<close>, \<^verbatim>\<open>"no"\<close> adds
  nothing to the attained score of its question and produces no candidate, while the same
  question left unanswered produces one: the scores are those of the responses with that
  answer removed, no candidate carries the answer, and removing the answer adds one
  candidate for each question of the catalog stored under that key.
\<close>

theorem unrecognised_answer_scores_zero_without_candidate:
  assumes wf: "responses_wellformed cat r"
    and st: "r cid = Some cr" "cr qid = Some (JObj kvs)" "map_of kvs ''answer'' = Some a"
    and other: "a \<noteq> JStr ''yes''" "a \<noteq> JStr ''partial''" "a \<noteq> JStr ''no''"
    and q: "q_id q = qid"
  shows "score_questions cr [q] 0 0 = Inr (2 * get_impact q, 0) \<and>
     recommend_questions c cr [q] [] = Inr [] \<and>
     recommend_questions c (cr(qid := None)) [q] [] = Inr [make_recommendation c q (JStr ''no'')] \<and>
     (\<exists>res res_un recs recs_un.
        compute_completion cat r = Inr res \<and>
        compute_completion cat (r(cid \<mapsto> cr(qid := None))) = Inr res_un \<and>
        res_overall_score res = res_overall_score res_un \<and>
        res_category_scores res = res_category_scores res_un \<and>
        recommend_categories r (categories cat) [] = Inr recs \<and>
        recommend_categories (r(cid \<mapsto> cr(qid := None))) (categories cat) [] = Inr recs_un \<and>
        (\<forall>x\<in>set recs. current_answer x \<noteq> a) \<and>
        length recs_un = length recs + length (keyed_questions cat cid qid))"
proof -
  let ?r' = "r(cid \<mapsto> cr(qid := None))"
  have ans: "get_answer cr (q_id q) = Inr a"
    using st q by (simp add: get_answer_def)
  have one: "score_questions cr [q] 0 0 = Inr (2 * get_impact q, 0)"
    using ans other by simp
  have two: "recommend_questions c cr [q] [] = Inr []"
    using ans other by simp
  have three: "recommend_questions c (cr(qid := None)) [q] [] =
      Inr [make_recommendation c q (JStr ''no'')]"
    using q by (simp add: get_answer_def)
  have wf': "responses_wellformed cat ?r'"
    using st(1) wf by (rule responses_wellformed_unanswer)
  have raw: "raw_pct ?r' c = raw_pct r c" for c
    using unrecognised_same_raw_pct [of r cid cr qid kvs a c] st other by simp
  then have entry: "score_entry ?r' = score_entry r"
    by (simp add: fun_eq_iff score_entry_def)
  have recs: "recommend_categories r (categories cat) [] = Inr (candidates cat r)"
    using wf recommend_categories_closed [of r "categories cat" "[]"]
    by (simp add: responses_wellformed_def candidates_def)
  have recs': "recommend_categories ?r' (categories cat) [] = Inr (candidates cat ?r')"
    using wf' recommend_categories_closed [of ?r' "categories cat" "[]"]
    by (simp add: responses_wellformed_def candidates_def)
  have none: "\<forall>x\<in>set (candidates cat r). current_answer x \<noteq> a"
    using candidates_current_answer [of _ cat r] other by (auto simp: needs_recommendation_def)
  have len: "length (candidates cat ?r') =
      length (candidates cat r) + length (keyed_questions cat cid qid)"
    unfolding candidates_def keyed_questions_def
    using unrecognised_candidates_length [of r cid cr qid kvs a "categories cat"] st other
    by simp
  have "res_overall_score (projr (compute_completion cat r)) =
        res_overall_score (projr (compute_completion cat ?r'))"
    "res_category_scores (projr (compute_completion cat r)) =
        res_category_scores (projr (compute_completion cat ?r'))"
    by (simp_all add: compute_completion_closed [OF wf] compute_completion_closed [OF wf']
        raw entry)
  moreover have "compute_completion cat r = Inr (projr (compute_completion cat r))"
    "compute_completion cat ?r' = Inr (projr (compute_completion cat ?r'))"
    by (simp_all add: compute_completion_closed [OF wf] compute_completion_closed [OF wf'])
  ultimately have "\<exists>res res_un recs recs_un.
        compute_completion cat r = Inr res \<and>
        compute_completion cat ?r' = Inr res_un \<and>
        res_overall_score res = res_overall_score res_un \<and>
        res_category_scores res = res_category_scores res_un \<and>
        recommend_categories r (categories cat) [] = Inr recs \<and>
        recommend_categories ?r' (categories cat) [] = Inr recs_un \<and>
        (\<forall>x\<in>set recs. current_answer x \<noteq> a) \<and>
        length recs_un = length recs + length (keyed_questions cat cid qid)"
    using recs recs' none len by blast
  with one two three show ?thesis by blast
qed

theorem unrecognised_answer_scores_zero_without_candidate_witness:
  "responses_wellformed ex_catalog ex_maybe_responses \<and>
   ex_maybe_responses ''1'' = Some ex_maybe_answers \<and>
   ex_maybe_answers ''1.1'' = Some (JObj [(''answer'', JStr ''maybe'')]) \<and>
   score_questions ex_maybe_answers [ex_question] 0 0 = Inr (2, 0) \<and>
   recommend_questions (hd (categories ex_catalog)) ex_maybe_answers [ex_question] [] = Inr [] \<and>
   (\<exists>res res_un recs recs_un.
      compute_completion ex_catalog ex_maybe_responses = Inr res \<and>
      compute_completion ex_catalog (ex_maybe_responses(''1'' \<mapsto> ex_maybe_answers(''1.1'' := None)))
        = Inr res_un \<and>
      res_overall_score res = res_overall_score res_un \<and>
      recommend_categories ex_maybe_responses (categories ex_catalog) [] = Inr recs \<and>
      recommend_categories (ex_maybe_responses(''1'' \<mapsto> ex_maybe_answers(''1.1'' := None)))
        (categories ex_catalog) [] = Inr recs_un \<and>
      length recs_un = length recs + 1)"
proof -
  have wf: "responses_wellformed ex_catalog ex_maybe_responses"
    by (simp add: responses_wellformed_def ex_catalog_def ex_maybe_responses_def
        ex_maybe_answers_def leaf_ok_def get_cat_responses_def is_object_def)
  have st1: "ex_maybe_responses ''1'' = Some ex_maybe_answers"
    by (simp add: ex_maybe_responses_def)
  have st2: "ex_maybe_answers ''1.1'' = Some (JObj [(''answer'', JStr ''maybe'')])"
    by (simp add: ex_maybe_answers_def)
  have st3: "map_of [(''answer'', JStr ''maybe'')] ''answer'' = Some (JStr ''maybe'')"
    by simp
  have o: "JStr ''maybe'' \<noteq> JStr ''yes''" "JStr ''maybe'' \<noteq> JStr ''partial''"
    "JStr ''maybe'' \<noteq> JStr ''no''"
    by simp_all
  have q: "q_id ex_question = ''1.1''" by (simp add: ex_question_def)
  have imp: "2 * get_impact ex_question = 2" by (simp add: ex_question_def get_impact_def)
  have keyed: "length (keyed_questions ex_catalog ''1'' ''1.1'') = 1"
    by (simp add: keyed_questions_def ex_catalog_def)
  from unrecognised_answer_scores_zero_without_candidate
    [OF wf st1 st2 st3 o(1) o(2) o(3) q, of "hd (categories ex_catalog)"]
  show ?thesis unfolding imp keyed using wf st1 st2 by blast
qed

end
